theory Spec2Isabelle
  imports Complex_Main
begin

section \<open>Python values and library behaviour\<close>

text \<open>
  The offer generator (\<^verbatim>\<open>pdf_generator.py\<close>) works on dynamically typed dictionaries.
  A value stored in such a dictionary is a \<open>pyval\<close>.  A finite float is represented by the
  rational number it denotes exactly (\<open>Fin\<close>); negative zero, NaN and the infinities are
  separate constructors, since the code tests for them and the formatter prints them
  differently.  Integers are unbounded, as in Python, and are taken below the
  interpreter's limit for int/str conversion.

  A Python \<open>str\<close> is represented by the list of its UTF-8 code units.  Equality,
  concatenation, and searching or replacing ASCII substrings act on that list as they act
  on the code points.  \<open>strip\<close>, \<open>lower\<close> and \<open>title\<close> are modelled for ASCII: code
  units above 127 are neither whitespace nor cased.
\<close>

datatype pyfloat = Fin rat | NegZero | NaN | PosInf | NegInf

datatype pyval =
    VNone
  | VBool bool
  | VInt int
  | VFloat pyfloat
  | VStr string
  | VBytes string
  | VList "pyval list"

datatype exn = TypeError | ValueError | OverflowError | IndexError | KeyError | OtherError

type_synonym pydict = "string \<rightharpoonup> pyval"
type_synonym texts = "string \<rightharpoonup> string"

text \<open>
  What the code obtains from the Python library (or from reportlab) and what is not
  computed here is a field of \<open>pylib\<close>; every theorem holds for every such library.
  \<^item> \<open>float_of_str s\<close> is \<^verbatim>\<open>float(s)\<close>, \<open>None\<close> when it raises \<^verbatim>\<open>ValueError\<close>;
  \<^item> \<open>float_of_int n\<close> is \<^verbatim>\<open>float(n)\<close> for an integer beyond \<open>2^53\<close> (rounded, or
    \<^verbatim>\<open>OverflowError\<close>); below, the conversion is exact and is computed here;
  \<^item> \<open>str_format t v\<close> is \<^verbatim>\<open>t.format(val=v)\<close> for a template other than the default one;
  \<^item> \<open>str_other v\<close> is \<^verbatim>\<open>str(v)\<close> for floats, bytes and lists;
  \<^item> \<open>int_of_str s\<close> is \<^verbatim>\<open>int(s)\<close>, \<open>None\<close> when it raises \<^verbatim>\<open>ValueError\<close>;
  \<^item> \<open>b64decode s\<close> is \<^verbatim>\<open>base64.b64decode(s)\<close>, \<open>None\<close> when it raises;
  \<^item> \<open>image_size b\<close> is \<^verbatim>\<open>ImageReader(io.BytesIO(b)).getSize()\<close>, \<open>None\<close> when the
    reader (or the later \<^verbatim>\<open>Image\<close> constructor) raises.
\<close>

record pylib =
  float_of_str :: "string \<Rightarrow> pyfloat option"
  float_of_int :: "int \<Rightarrow> exn + pyfloat"
  str_format :: "string \<Rightarrow> pyval \<Rightarrow> exn + string"
  str_other :: "pyval \<Rightarrow> string"
  int_of_str :: "string \<Rightarrow> int option"
  b64decode :: "string \<Rightarrow> string option"
  image_size :: "string \<Rightarrow> (int \<times> int) option"

subsection \<open>Strings\<close>

definition is_space :: "char \<Rightarrow> bool" where
  "is_space c = (let n = (of_char c :: nat) in (9 \<le> n \<and> n \<le> 13) \<or> (28 \<le> n \<and> n \<le> 32))"

definition py_strip :: "string \<Rightarrow> string" where
  "py_strip s = rev (dropWhile is_space (rev (dropWhile is_space s)))"

definition is_upper :: "char \<Rightarrow> bool" where
  "is_upper c = (let n = (of_char c :: nat) in 65 \<le> n \<and> n \<le> 90)"

definition is_lower :: "char \<Rightarrow> bool" where
  "is_lower c = (let n = (of_char c :: nat) in 97 \<le> n \<and> n \<le> 122)"

definition to_lower :: "char \<Rightarrow> char" where
  "to_lower c = (if is_upper c then char_of ((of_char c :: nat) + 32) else c)"

definition to_upper :: "char \<Rightarrow> char" where
  "to_upper c = (if is_lower c then char_of ((of_char c :: nat) - 32) else c)"

definition py_lower :: "string \<Rightarrow> string" where
  "py_lower s = map to_lower s"

text \<open>\<^verbatim>\<open>str.title()\<close>: a cased character is upper-cased when the one before it is not
  cased, and lower-cased otherwise.\<close>

fun title_from :: "bool \<Rightarrow> string \<Rightarrow> string" where
  "title_from prev_cased [] = []"
| "title_from prev_cased (c # cs) =
     (if is_upper c \<or> is_lower c
      then (if prev_cased then to_lower c else to_upper c) # title_from True cs
      else c # title_from False cs)"

definition py_title :: "string \<Rightarrow> string" where
  "py_title s = title_from False s"

definition startswith :: "string \<Rightarrow> string \<Rightarrow> bool" where
  "startswith s p = (take (length p) s = p)"

definition endswith :: "string \<Rightarrow> string \<Rightarrow> bool" where
  "endswith s p = (length p \<le> length s \<and> drop (length s - length p) s = p)"

text \<open>\<^verbatim>\<open>s.replace(old, new)\<close>: the occurrences of \<open>old\<close> are replaced from the left,
  without overlap; an empty \<open>old\<close> matches before every character and at the end.\<close>

function replace_from :: "string \<Rightarrow> string \<Rightarrow> string \<Rightarrow> string" where
  "replace_from old new [] = []"
| "replace_from old new (c # cs) =
     (if old \<noteq> [] \<and> startswith (c # cs) old
      then new @ replace_from old new (drop (length old) (c # cs))
      else c # replace_from old new cs)"
  by pat_completeness auto
termination
  by (relation "measure (\<lambda>(old, new, s). length s)") (auto simp: startswith_def)

definition py_replace :: "string \<Rightarrow> string \<Rightarrow> string \<Rightarrow> string" where
  "py_replace s old new =
     (if old = [] then new @ concat (map (\<lambda>c. c # new) s) else replace_from old new s)"

text \<open>\<^verbatim>\<open>s.rfind(c)\<close> for a single character: the last index, or \<open>-1\<close>.\<close>

fun rfind_from :: "char \<Rightarrow> int \<Rightarrow> int \<Rightarrow> string \<Rightarrow> int" where
  "rfind_from c i found [] = found"
| "rfind_from c i found (x # xs) = rfind_from c (i + 1) (if x = c then i else found) xs"

definition py_rfind :: "string \<Rightarrow> char \<Rightarrow> int" where
  "py_rfind s c = rfind_from c 0 (- 1) s"

text \<open>\<^verbatim>\<open>sep.join(parts)\<close>.\<close>

fun py_join :: "string \<Rightarrow> string list \<Rightarrow> string" where
  "py_join sep [] = []"
| "py_join sep [x] = x"
| "py_join sep (x # y # ys) = x @ sep @ py_join sep (y # ys)"

subsection \<open>Numbers as text\<close>

fun dec_digits :: "nat \<Rightarrow> string" where
  "dec_digits n =
     (if n < 10 then [''0123456789'' ! n]
      else dec_digits (n div 10) @ [''0123456789'' ! (n mod 10)])"

declare dec_digits.simps [simp del]

text \<open>\<^verbatim>\<open>str(n)\<close> for an integer.\<close>

definition str_int :: "int \<Rightarrow> string" where
  "str_int n = (if n < 0 then ''-'' @ dec_digits (nat (- n)) else dec_digits (nat n))"

definition zero_pad :: "nat \<Rightarrow> string \<Rightarrow> string" where
  "zero_pad w s = replicate (w - length s) (CHR ''0'') @ s"

text \<open>\<^verbatim>\<open>f"{n:04d}"\<close>: the sign counts towards the minimum width of four.\<close>

definition format_04d :: "int \<Rightarrow> string" where
  "format_04d n =
     (if n < 0 then ''-'' @ zero_pad 3 (dec_digits (nat (- n))) else zero_pad 4 (dec_digits (nat n)))"

definition round_half_even :: "rat \<Rightarrow> int" where
  "round_half_even q =
     (let f = \<lfloor>q\<rfloor>; r = q - of_int f
      in if r < 1 / 2 then f else if 1 / 2 < r then f + 1 else if even f then f else f + 1)"

fun group_rev :: "string \<Rightarrow> string" where
  "group_rev (a # b # c # d # rest) = a # b # c # CHR '','' # group_rev (d # rest)"
| "group_rev xs = xs"

definition group3 :: "string \<Rightarrow> string" where
  "group3 s = rev (group_rev (rev s))"

text \<open>
  The digits of a non-negative value in fixed-point notation with \<open>p\<close> fractional digits,
  as the format types \<^verbatim>\<open>.{p}f\<close> and \<^verbatim>\<open>,.{p}f\<close> print them: the value is rounded to
  \<open>p\<close> digits correctly, a tie going to the even digit.
\<close>

definition fixed_body :: "bool \<Rightarrow> nat \<Rightarrow> rat \<Rightarrow> string" where
  "fixed_body grouping p a =
     (let n = nat (round_half_even (a * 10 ^ p));
          ip = dec_digits (n div 10 ^ p)
      in (if grouping then group3 ip else ip)
         @ (if p = 0 then [] else ''.'' @ zero_pad p (dec_digits (n mod 10 ^ p))))"

definition format_f :: "bool \<Rightarrow> nat \<Rightarrow> pyfloat \<Rightarrow> string" where
  "format_f grouping p x =
     (case x of
        NaN \<Rightarrow> ''nan''
      | PosInf \<Rightarrow> ''inf''
      | NegInf \<Rightarrow> ''-inf''
      | NegZero \<Rightarrow> ''-'' @ fixed_body grouping p 0
      | Fin q \<Rightarrow> (if q < 0 then ''-'' else []) @ fixed_body grouping p \<bar>q\<bar>)"

subsection \<open>Truth, numbers, \<^verbatim>\<open>str()\<close>\<close>

definition is_zero_float :: "pyfloat \<Rightarrow> bool" where
  "is_zero_float x = (x = Fin 0 \<or> x = NegZero)"

definition truthy :: "pyval \<Rightarrow> bool" where
  "truthy v =
     (case v of
        VNone \<Rightarrow> False
      | VBool b \<Rightarrow> b
      | VInt n \<Rightarrow> n \<noteq> 0
      | VFloat x \<Rightarrow> \<not> is_zero_float x
      | VStr s \<Rightarrow> s \<noteq> []
      | VBytes b \<Rightarrow> b \<noteq> []
      | VList xs \<Rightarrow> xs \<noteq> [])"

definition py_str :: "pylib \<Rightarrow> pyval \<Rightarrow> string" where
  "py_str lib v =
     (case v of
        VStr s \<Rightarrow> s
      | VNone \<Rightarrow> ''None''
      | VBool b \<Rightarrow> (if b then ''True'' else ''False'')
      | VInt n \<Rightarrow> str_int n
      | _ \<Rightarrow> str_other lib v)"

text \<open>The float a number converts to (\<^verbatim>\<open>float(v)\<close>, as \<^verbatim>\<open>math.isnan\<close> and the
  format type \<^verbatim>\<open>f\<close> apply it); \<open>None\<close> when the value is not an int or a float.\<close>

definition as_float :: "pylib \<Rightarrow> pyval \<Rightarrow> (exn + pyfloat) option" where
  "as_float lib v =
     (case v of
        VBool b \<Rightarrow> Some (Inr (Fin (if b then 1 else 0)))
      | VInt n \<Rightarrow> Some (if \<bar>n\<bar> \<le> 2 ^ 53 then Inr (Fin (of_int n)) else float_of_int lib n)
      | VFloat x \<Rightarrow> Some (Inr x)
      | _ \<Rightarrow> None)"

section \<open>TextResolver: \<^verbatim>\<open>get_text\<close>\<close>

text \<open>
  \<^verbatim>\<open>get_text(texts_dict, key, fallback_text_value=None)\<close>.  The translation table is a
  dictionary from strings to strings, so the branch for a table that is no dictionary is
  not reachable, and \<^verbatim>\<open>str(retrieved)\<close> is the entry itself.
\<close>

definition get_text :: "texts \<Rightarrow> string \<Rightarrow> string option \<Rightarrow> string" where
  "get_text texts_dict key fallback_text_value =
     (let fallback = (case fallback_text_value of
                        None \<Rightarrow> py_title (py_replace key ''_'' '' '') @ '' (PDF-Text fehlt)''
                      | Some t \<Rightarrow> t)
      in case texts_dict key of None \<Rightarrow> fallback | Some retrieved \<Rightarrow> retrieved)"

section \<open>ValueFormatter: \<^verbatim>\<open>format_kpi_value\<close>\<close>

text \<open>The string clean-up before \<^verbatim>\<open>float()\<close>: when both separators occur, the one
  that occurs last is the decimal separator and the other one is dropped.\<close>

definition clean_number_string :: "string \<Rightarrow> string" where
  "clean_number_string v =
     (let cleaned =
        (if CHR ''.'' \<in> set v \<and> CHR '','' \<in> set v
         then (if py_rfind v (CHR '','') < py_rfind v (CHR ''.'') then py_replace v '','' ''''
               else if py_rfind v (CHR ''.'') < py_rfind v (CHR '','') then py_replace v ''.'' ''''
               else v)
         else v)
      in py_replace cleaned '','' ''.'')"

text \<open>\<^verbatim>\<open>template.format(val=value)\<close>: computed for the default template of the years
  unit, taken from the library for any other template.\<close>

definition format_val :: "pylib \<Rightarrow> string \<Rightarrow> pyval \<Rightarrow> pyfloat \<Rightarrow> exn + string" where
  "format_val lib template v x =
     (if template = ''{val:.1f} Jahre'' then Inr (format_f False 1 x @ '' Jahre'')
      else str_format lib template v)"

text \<open>The numeric branch of \<^verbatim>\<open>format_kpi_value\<close> (source lines 94 to 100), for a
  value \<open>v\<close> that converts to the float \<open>x\<close>.\<close>

definition format_number ::
  "pylib \<Rightarrow> texts \<Rightarrow> pyval \<Rightarrow> pyfloat \<Rightarrow> string \<Rightarrow> int \<Rightarrow> exn + string" where
  "format_number lib current_texts v x unit precision =
     (if x = PosInf \<or> x = NegInf then Inr (get_text current_texts ''value_infinite'' (Some ''Nicht berechenbar''))
      else if unit = ''Jahre''
      then format_val lib (get_text current_texts ''years_format_string_pdf'' (Some ''{val:.1f} Jahre'')) v x
      else if precision < 0 then Inl ValueError
      else let formatted_num_en = format_f True (nat precision) x;
               formatted_num_de =
                 py_replace (py_replace (py_replace formatted_num_en '','' ''#TEMP#'') ''.'' '','') ''#TEMP#'' ''.''
           in Inr (py_strip (formatted_num_de @ '' '' @ unit)))"

definition format_kpi_value ::
  "pylib \<Rightarrow> pyval \<Rightarrow> string \<Rightarrow> string \<Rightarrow> int \<Rightarrow> texts option \<Rightarrow> exn + string" where
  "format_kpi_value lib v unit na_text_key precision texts_dict =
     (let current_texts = (case texts_dict of None \<Rightarrow> Map.empty | Some t \<Rightarrow> t);
          na_text = get_text current_texts na_text_key (Some ''k.A.'')
      in case v of
           VNone \<Rightarrow> Inr na_text
         | VStr s \<Rightarrow>
             (if s = na_text then Inr s
              else case float_of_str lib (clean_number_string s) of
                     None \<Rightarrow> Inr s
                   | Some x \<Rightarrow> format_number lib current_texts (VFloat x) x unit precision)
         | _ \<Rightarrow>
             (case as_float lib v of
                None \<Rightarrow> Inr (py_str lib v)
              | Some (Inl e) \<Rightarrow> Inl e
              | Some (Inr x) \<Rightarrow>
                  (if x = NaN then Inr na_text
                   else format_number lib current_texts v x unit precision)))"

text \<open>The defaults of the optional parameters of \<^verbatim>\<open>format_kpi_value\<close>.\<close>

definition default_na_text_key :: string where
  "default_na_text_key = ''not_applicable_short''"

definition default_precision :: int where
  "default_precision = 2"

text \<open>A library instance for evaluating the functions on concrete inputs: every string
  parse fails, and \<^verbatim>\<open>str()\<close> of a float, of bytes or of a list is a fixed marker.\<close>

definition test_lib :: pylib where
  "test_lib =
     \<lparr> float_of_str = (\<lambda>s. None),
       float_of_int = (\<lambda>n. Inl OverflowError),
       str_format = (\<lambda>t v. Inl ValueError),
       str_other = (\<lambda>v. ''<object>''),
       int_of_str = (\<lambda>s. None),
       b64decode = (\<lambda>s. None),
       image_size = (\<lambda>b. None) \<rparr>"

section \<open>PlaceholderEngine: the salutation line\<close>

text \<open>\<^verbatim>\<open>d.get(key, default)\<close>.\<close>

definition dict_get :: "pydict \<Rightarrow> string \<Rightarrow> pyval \<Rightarrow> pyval" where
  "dict_get d key dflt = (case d key of None \<Rightarrow> dflt | Some v \<Rightarrow> v)"

text \<open>The test \<^verbatim>\<open>p and str(p).strip()\<close>.\<close>

definition nonblank :: "pylib \<Rightarrow> pyval \<Rightarrow> bool" where
  "nonblank lib p = (truthy p \<and> py_strip (py_str lib p) \<noteq> [])"

text \<open>\<^verbatim>\<open>" ".join(parts)\<close> raises \<^verbatim>\<open>TypeError\<close> when a part is no string.\<close>

fun str_items :: "pyval list \<Rightarrow> exn + string list" where
  "str_items [] = Inr []"
| "str_items (VStr s # ps) = (case str_items ps of Inl e \<Rightarrow> Inl e | Inr ss \<Rightarrow> Inr (s # ss))"
| "str_items (p # ps) = Inl TypeError"

definition generic_fallback :: "texts \<Rightarrow> string" where
  "generic_fallback texts =
     get_text texts ''salutation_generic_fallback'' (Some ''Sehr geehrte Damen und Herren,'')"

text \<open>Source lines 291 to 296: the polite form for the key chosen, followed by the
  full name, or the generic salutation when there is no name.\<close>

definition default_salutation :: "texts \<Rightarrow> string \<Rightarrow> string \<Rightarrow> string" where
  "default_salutation texts salutation_key_base customer_full_name_for_salutation =
     (let default_salutation_text = get_text texts salutation_key_base (Some ''Sehr geehrte/r'')
      in if customer_full_name_for_salutation \<noteq> []
         then default_salutation_text @ '' '' @ customer_full_name_for_salutation @ '',''
         else generic_fallback texts)"

definition generate_complete_salutation_line :: "pylib \<Rightarrow> pydict \<Rightarrow> texts \<Rightarrow> exn + string" where
  "generate_complete_salutation_line lib customer_data texts =
     (let salutation_value = dict_get customer_data ''salutation'' VNone;
          title = dict_get customer_data ''title'' (VStr []);
          first_name = dict_get customer_data ''first_name'' (VStr []);
          last_name = dict_get customer_data ''last_name'' (VStr []);
          name_parts = filter (nonblank lib) [title, first_name, last_name]
      in case str_items name_parts of
           Inl e \<Rightarrow> Inl e
         | Inr parts \<Rightarrow>
            (let customer_full_name_for_salutation = py_strip (py_join '' '' parts)
             in case salutation_value of
                  VStr sal \<Rightarrow>
                    (let sl_lower = py_strip (py_lower sal)
                     in if sl_lower = ''herr''
                        then Inr (default_salutation texts ''salutation_male_polite'' customer_full_name_for_salutation)
                        else if sl_lower = ''frau''
                        then Inr (default_salutation texts ''salutation_female_polite'' customer_full_name_for_salutation)
                        else if sl_lower = ''familie''
                        then (let fam_name =
                                    (if nonblank lib last_name then last_name
                                     else dict_get customer_data ''company_name''
                                            (VStr (get_text texts ''family_default_name_pdf'' (Some ''Familie''))))
                              in Inr (get_text texts ''salutation_family_polite'' (Some ''Sehr geehrte Familie'')
                                      @ '' '' @ py_strip (py_str lib fam_name) @ '',''))
                        else if sl_lower = ''firma''
                        then (let c = dict_get customer_data ''company_name'' (VStr []);
                                  company_name_val = (if truthy c then c else last_name)
                              in if truthy company_name_val
                                 then Inr (get_text texts ''salutation_company_polite''
                                             (Some ''Sehr geehrte Damen und Herren der Firma'')
                                           @ '' '' @ py_strip (py_str lib company_name_val) @ '','')
                                 else Inr (generic_fallback texts))
                        else Inr (default_salutation texts ''salutation_polite'' customer_full_name_for_salutation))
                | _ \<Rightarrow> Inr (default_salutation texts ''salutation_polite'' customer_full_name_for_salutation)))"

section \<open>The offer number\<close>

text \<open>
  The settings store is a collaborator: \<open>load_admin_setting st key default\<close> reads the
  store in state \<open>st\<close> and returns a value or raises; \<open>save_admin_setting st key v\<close>
  returns the exception it raised, if any, and the state it leaves.  The clock gives the
  fields of \<^verbatim>\<open>datetime.now()\<close>.
\<close>

record 's settings_store =
  load_admin_setting :: "'s \<Rightarrow> string \<Rightarrow> pyval \<Rightarrow> exn + pyval"
  save_admin_setting :: "'s \<Rightarrow> string \<Rightarrow> pyval \<Rightarrow> exn option \<times> 's"

record clock =
  now_year :: nat
  now_month :: nat
  now_day :: nat
  now_hour :: nat
  now_minute :: nat
  now_second :: nat

text \<open>\<^verbatim>\<open>datetime.now().strftime('%Y%m%d-%H%M%S')\<close>.\<close>

definition strftime_stamp :: "clock \<Rightarrow> string" where
  "strftime_stamp clk =
     zero_pad 4 (dec_digits (now_year clk)) @ zero_pad 2 (dec_digits (now_month clk))
     @ zero_pad 2 (dec_digits (now_day clk)) @ ''-'' @ zero_pad 2 (dec_digits (now_hour clk))
     @ zero_pad 2 (dec_digits (now_minute clk)) @ zero_pad 2 (dec_digits (now_second clk))"

text \<open>
  \<^verbatim>\<open>int(str(obj))\<close>, \<open>None\<close> when it raises \<^verbatim>\<open>ValueError\<close>: an integer is printed and
  read back; a string is parsed by the library; the text of a boolean, of a float (which
  has a point, an exponent, \<^verbatim>\<open>inf\<close> or \<^verbatim>\<open>nan\<close>), of bytes, of a list or of
  \<^verbatim>\<open>None\<close> is no integer literal.
\<close>

definition int_of_str_of :: "pylib \<Rightarrow> pyval \<Rightarrow> int option" where
  "int_of_str_of lib obj =
     (case obj of VInt n \<Rightarrow> Some n | VStr s \<Rightarrow> int_of_str lib s | _ \<Rightarrow> None)"

definition offer_number_fallback :: "clock \<Rightarrow> string" where
  "offer_number_fallback clk = ''AN'' @ strftime_stamp clk"

definition get_next_offer_number ::
  "pylib \<Rightarrow> clock \<Rightarrow> texts \<Rightarrow> 's settings_store \<Rightarrow> 's \<Rightarrow> string \<times> 's" where
  "get_next_offer_number lib clk texts store st =
     (case load_admin_setting store st ''offer_number_suffix'' (VInt 1000) of
        Inl e \<Rightarrow> (offer_number_fallback clk, st)
      | Inr current_suffix_obj \<Rightarrow>
          (case (if current_suffix_obj \<noteq> VNone then int_of_str_of lib current_suffix_obj else Some 1000) of
             None \<Rightarrow> (offer_number_fallback clk, st)
           | Some current_suffix \<Rightarrow>
               (let next_suffix = current_suffix + 1
                in case save_admin_setting store st ''offer_number_suffix'' (VInt next_suffix) of
                     (Some e, st') \<Rightarrow> (offer_number_fallback clk, st')
                   | (None, st') \<Rightarrow>
                       (''AN'' @ dec_digits (now_year clk) @ ''-'' @ format_04d next_suffix, st'))))"

text \<open>A store that keeps its settings in a dictionary: \<open>save\<close> writes the entry and
  \<open>load\<close> returns it, or the default when there is none.  Neither raises.\<close>

definition dict_store :: "pydict settings_store" where
  "dict_store =
     \<lparr> load_admin_setting = (\<lambda>st key dflt. Inr (dict_get st key dflt)),
       save_admin_setting = (\<lambda>st key v. (None, st(key \<mapsto> v))) \<rparr>"

section \<open>Flowables and styles\<close>

text \<open>
  A reportlab flowable is kept as the data it is built from: a paragraph as its text and
  the name of its style, a spacer and an image as their sizes in points.  Sizes are exact
  rationals (the rounding of the float arithmetic is not modelled).  The module cannot be
  loaded without reportlab, so \<^verbatim>\<open>_REPORTLAB_AVAILABLE\<close> holds wherever these functions
  run.
\<close>

datatype flowable =
    Paragraph string string
  | Spacer rat rat
  | Image string rat rat string

definition cm :: rat where
  "cm = 7200 / 254"



section \<open>SectionRenderers: the cost table\<close>








section \<open>SectionRenderers: the simulation table\<close>











section \<open>ImageEmbedder and the chart gallery\<close>

definition py_upper :: "string \<Rightarrow> string" where
  "py_upper s = map to_upper s"

text \<open>\<^verbatim>\<open>s.split(',', 1)[1]\<close>: what follows the first comma; \<^verbatim>\<open>IndexError\<close> when
  there is none.\<close>

definition after_first_comma :: "string \<Rightarrow> string option" where
  "after_first_comma s = (case dropWhile (\<lambda>c. c \<noteq> CHR '','') s of [] \<Rightarrow> None | c # rest \<Rightarrow> Some rest)"

text \<open>The placeholder line of source lines 227 to 234.\<close>

definition caption_placeholder :: "texts \<Rightarrow> string option \<Rightarrow> flowable list" where
  "caption_placeholder texts caption_text_key =
     (case caption_text_key of
        None \<Rightarrow> []
      | Some key \<Rightarrow>
          if key = [] then []
          else (let caption_text_fb = get_text texts key (Some [])
                in if caption_text_fb \<noteq> [] \<and> \<not> startswith caption_text_fb key
                   then [Paragraph (''<i>('' @ caption_text_fb @ '': ''
                                    @ get_text texts ''image_not_available_pdf''
                                        (Some (''Bild nicht verf'' @ [CHR 0xC3, CHR 0xBC] @ ''gbar''))
                                    @ '')</i>'') ''ImageCaption'']
                   else []))"

definition image_bytes_of :: "pylib \<Rightarrow> pyval \<Rightarrow> string option" where
  "image_bytes_of lib image_data_input =
     (case image_data_input of
        VStr s \<Rightarrow>
          (if py_lower (py_strip s) \<notin> set [[], ''none'', ''null'', ''nan'']
           then (if startswith s ''data:image''
                 then (case after_first_comma s of None \<Rightarrow> None | Some payload \<Rightarrow> b64decode lib payload)
                 else b64decode lib s)
           else None)
      | VBytes b \<Rightarrow> Some b
      | _ \<Rightarrow> None)"

definition get_image_flowable ::
  "pylib \<Rightarrow> pyval \<Rightarrow> rat \<Rightarrow> texts \<Rightarrow> string option \<Rightarrow> rat option \<Rightarrow> string \<Rightarrow> flowable list" where
  "get_image_flowable lib image_data_input desired_width texts caption_text_key max_height align =
     (case image_bytes_of lib image_data_input of
        None \<Rightarrow> caption_placeholder texts caption_text_key
      | Some img_data_bytes \<Rightarrow>
          if img_data_bytes = [] then caption_placeholder texts caption_text_key
          else
            (case image_size lib img_data_bytes of
               None \<Rightarrow> caption_placeholder texts caption_text_key
             | Some (iw, ih) \<Rightarrow>
                 if iw \<le> 0 \<or> ih \<le> 0 then caption_placeholder texts caption_text_key
                 else
                   (let aspect = of_int ih / of_int iw;
                        img_h_calc = desired_width * aspect;
                        limited = (case max_height of None \<Rightarrow> False | Some m \<Rightarrow> m \<noteq> 0 \<and> m < img_h_calc);
                        img_h_final = (case max_height of None \<Rightarrow> img_h_calc
                                       | Some m \<Rightarrow> if limited then m else img_h_calc);
                        img_w_final = (if limited then (if 0 < aspect then img_h_final / aspect else desired_width)
                                       else desired_width);
                        img = Image img_data_bytes img_w_final img_h_final (py_upper align)
                    in case caption_text_key of
                         None \<Rightarrow> [img]
                       | Some key \<Rightarrow>
                           if key = [] then [img]
                           else (let caption_text = get_text texts key (Some [])
                                 in if caption_text \<noteq> [] \<and> \<not> startswith caption_text key
                                       \<and> \<not> endswith caption_text ''(PDF-Text fehlt)''
                                    then [img, Spacer 1 (cm / 10), Paragraph caption_text ''ImageCaption'']
                                    else [img]))))"

text \<open>The catalogue of charts of the Visualizations section: key in the analysis
  results, key of the title, default title.\<close>

definition charts_config_for_pdf_generator :: "(string \<times> string \<times> string) list" where
  "charts_config_for_pdf_generator =
  [(''monthly_prod_cons_chart_bytes'', ''pdf_chart_title_monthly_comp_pdf'', ''Monatl. Produktion/Verbrauch (2D)''),
   (''cost_projection_chart_bytes'', ''pdf_chart_label_cost_projection'', ''Stromkosten-Hochrechnung (2D)''),
   (''cumulative_cashflow_chart_bytes'', ''pdf_chart_label_cum_cashflow'', ''Kumulierter Cashflow (2D)''),
   (''consumption_coverage_pie_chart_bytes'', ''pdf_chart_title_consumption_coverage_pdf'', ''Deckung Gesamtverbrauch (Jahr 1)''),
   (''pv_usage_pie_chart_bytes'', ''pdf_chart_title_pv_usage_pdf'', ''Nutzung PV-Strom (Jahr 1)''),
   (''daily_production_switcher_chart_bytes'', ''pdf_chart_label_daily_3d'', ''Tagesproduktion (3D)''),
   (''weekly_production_switcher_chart_bytes'', ''pdf_chart_label_weekly_3d'', ''Wochenproduktion (3D)''),
   (''yearly_production_switcher_chart_bytes'', ''pdf_chart_label_yearly_3d_bar'', ''Jahresproduktion (3D-Balken)''),
   (''project_roi_matrix_switcher_chart_bytes'', ''pdf_chart_label_roi_matrix_3d'', ''Projektrendite-Matrix (3D)''),
   (''feed_in_revenue_switcher_chart_bytes'', ''pdf_chart_label_feedin_3d'', ''Einspeiseverg'' @ [CHR 0xC3, CHR 0xBC] @ ''tung (3D)''),
   (''prod_vs_cons_switcher_chart_bytes'', ''pdf_chart_label_prodcons_3d'', ''Verbr. vs. Prod. (3D)''),
   (''tariff_cube_switcher_chart_bytes'', ''pdf_chart_label_tariffcube_3d'', ''Tarifvergleich (3D)''),
   (''co2_savings_value_switcher_chart_bytes'', ''pdf_chart_label_co2value_3d'', ''CO2-Ersparnis vs. Wert (3D)''),
   (''investment_value_switcher_chart_bytes'', ''pdf_chart_label_investval_3D'', ''Investitionsnutzwert (3D)''),
   (''storage_effect_switcher_chart_bytes'', ''pdf_chart_label_storageeff_3d'', ''Speicherwirkung (3D)''),
   (''selfuse_stack_switcher_chart_bytes'', ''pdf_chart_label_selfusestack_3d'', ''Eigenverbr. vs. Einspeis. (3D)''),
   (''cost_growth_switcher_chart_bytes'', ''pdf_chart_label_costgrowth_3d'', ''Stromkostensteigerung (3D)''),
   (''selfuse_ratio_switcher_chart_bytes'', ''pdf_chart_label_selfuseratio_3d'', ''Eigenverbrauchsgrad (3D)''),
   (''roi_comparison_switcher_chart_bytes'', ''pdf_chart_label_roicompare_3d'', ''ROI-Vergleich (3D)''),
   (''scenario_comparison_switcher_chart_bytes'', ''pdf_chart_label_scenariocomp_3d'', ''Szenarienvergleich (3D)''),
   (''tariff_comparison_switcher_chart_bytes'', ''pdf_chart_label_tariffcomp_3d'', ''Vorher/Nachher Stromkosten (3D)''),
   (''income_projection_switcher_chart_bytes'', ''pdf_chart_label_incomeproj_3d'', ''Einnahmenprognose (3D)''),
   (''yearly_production_chart_bytes'', ''pdf_chart_label_pvvis_yearly'', ''PV Visuals: Jahresproduktion''),
   (''break_even_chart_bytes'', ''pdf_chart_label_pvvis_breakeven'', ''PV Visuals: Break-Even''),
   (''amortisation_chart_bytes'', ''pdf_chart_label_pvvis_amort'', ''PV Visuals: Amortisation'')]"

text \<open>
  One pass of the loop over the catalogue (source lines 804 to 813): the flowables the
  chart adds to the story, and whether it counts as added.  The option
  \<^verbatim>\<open>selected_charts_for_pdf\<close> is the list the user interface stores.
\<close>

definition chart_block ::
  "pylib \<Rightarrow> pydict \<Rightarrow> texts \<Rightarrow> pyval list \<Rightarrow> rat \<Rightarrow> string \<times> string \<times> string \<Rightarrow> flowable list \<times> nat" where
  "chart_block lib current_analysis_results_pdf texts selected_charts_for_pdf_opt available_width_content entry =
     (case entry of (chart_key, title_key, default_title) \<Rightarrow>
        if VStr chart_key \<notin> set selected_charts_for_pdf_opt then ([], 0)
        else
          (case dict_get current_analysis_results_pdf chart_key VNone of
             VBytes chart_image_bytes \<Rightarrow>
               if chart_image_bytes = [] then ([], 0)
               else
                 (let chart_display_title = get_text texts title_key (Some default_title);
                      img_flowables_chart =
                        get_image_flowable lib (VBytes chart_image_bytes) (available_width_content * (9 / 10))
                          texts None (Some (12 * cm)) ''CENTER''
                  in if img_flowables_chart \<noteq> []
                     then (Paragraph chart_display_title ''ChartTitle'' # img_flowables_chart
                           @ [Spacer 1 ((7 / 10) * cm)], 1)
                     else ([Paragraph chart_display_title ''ChartTitle'',
                            Paragraph (get_text texts ''pdf_chart_load_error_placeholder_param''
                                         (Some (''(Fehler beim Laden: '' @ chart_display_title @ '')'')))
                              ''NormalCenter'',
                            Spacer 1 ((1 / 2) * cm)], 0))
           | _ \<Rightarrow> ([], 0)))"

fun chart_loop ::
  "pylib \<Rightarrow> pydict \<Rightarrow> texts \<Rightarrow> pyval list \<Rightarrow> rat \<Rightarrow> (string \<times> string \<times> string) list
     \<Rightarrow> flowable list \<times> nat \<Rightarrow> flowable list \<times> nat" where
  "chart_loop lib ar texts selected w [] acc = acc"
| "chart_loop lib ar texts selected w (entry # entries) (story, charts_added_count) =
     (case chart_block lib ar texts selected w entry of
        (blocks, added) \<Rightarrow>
          chart_loop lib ar texts selected w entries (story @ blocks, charts_added_count + added))"

text \<open>Source lines 800 to 817: what the gallery appends to the story.\<close>

definition visualizations_charts ::
  "pylib \<Rightarrow> pydict \<Rightarrow> texts \<Rightarrow> pyval list \<Rightarrow> rat \<Rightarrow> flowable list" where
  "visualizations_charts lib current_analysis_results_pdf texts selected_charts_for_pdf_opt available_width_content =
     (case chart_loop lib current_analysis_results_pdf texts selected_charts_for_pdf_opt
             available_width_content charts_config_for_pdf_generator ([], 0) of
        (story, charts_added_count) \<Rightarrow>
          if charts_added_count = 0 \<and> selected_charts_for_pdf_opt \<noteq> []
          then story @ [Paragraph (get_text texts ''pdf_selected_charts_not_renderable''
                          (Some (''Ausgew'' @ [CHR 0xC3, CHR 0xA4]
                                 @ ''hlte Diagramme konnten nicht geladen/angezeigt werden.''))) ''NormalCenter'']
          else if selected_charts_for_pdf_opt = []
          then story @ [Paragraph (get_text texts ''pdf_no_charts_selected_for_section''
                          (Some (''Keine Diagramme f'' @ [CHR 0xC3, CHR 0xBC] @ ''r diese Sektion ausgew''
                                 @ [CHR 0xC3, CHR 0xA4] @ ''hlt.''))) ''NormalCenter'']
          else story)"

section \<open>AppendixMerger\<close>




section \<open>Collaborators for concrete runs\<close>

text \<open>A clock, two stores that raise, a library that reads every image as 4 by 3
  pixels, and a PDF library whose pages are numbers: the file \<open>bad.pdf\<close> cannot be
  read, every other file has one page, and the base document has two.\<close>

definition test_clock :: clock where
  "test_clock =
     \<lparr> now_year = 2025, now_month = 6, now_day = 3, now_hour = 14, now_minute = 5, now_second = 9 \<rparr>"

definition broken_store :: "pydict settings_store" where
  "broken_store =
     \<lparr> load_admin_setting = (\<lambda>st key dflt. Inl OtherError),
       save_admin_setting = (\<lambda>st key v. (Some OtherError, st)) \<rparr>"

definition readonly_store :: "pydict settings_store" where
  "readonly_store =
     \<lparr> load_admin_setting = (\<lambda>st key dflt. Inr (dict_get st key dflt)),
       save_admin_setting = (\<lambda>st key v. (Some OtherError, st)) \<rparr>"

definition image_lib :: pylib where
  "image_lib = test_lib \<lparr> image_size := (\<lambda>b. Some (4, 3)) \<rparr>"






text \<open>The number a string of decimal digits denotes.\<close>

definition digits_value :: "string \<Rightarrow> nat" where
  "digits_value s = foldl (\<lambda>acc c. 10 * acc + (of_char c - 48)) 0 s"


section \<open>Properties of the ValueFormatter\<close>

lemma format_f_3_25_numeral: "format_f False 1 (Fin (13 / 4)) = ''3.2''"
  by code_simp

lemma format_f_3_25: "format_f False (Suc 0) (Fin (13 / 4)) = ''3.2''"
  using format_f_3_25_numeral by simp

text \<open>
  Claim C1, as the code has it.  For the value 3.25 with the unit \<open>Jahre\<close> and no
  translation table, \<open>format_kpi_value\<close> returns \<open>3.2 Jahre\<close>, whatever the precision
  asked for: the unit selects the template \<^verbatim>\<open>{val:.1f} Jahre\<close>, which prints one
  fractional digit, and 3.25 lies halfway between 3.2 and 3.3, so it is rounded to the
  even digit.  The text is the output of the template; the exchange of point and comma is
  a step of the general branch only.
\<close>

theorem C1_years_unit:
  "format_kpi_value lib (VFloat (Fin (13 / 4))) ''Jahre'' na_text_key precision None = Inr ''3.2 Jahre''"
  by (simp add: format_kpi_value_def as_float_def format_number_def get_text_def format_val_def
        format_f_3_25)

text \<open>The result is not the string \<open>3,3 Jahre\<close> of the claim as it was stated.\<close>

theorem C1_years_unit_counterexample:
  "format_kpi_value test_lib (VFloat (Fin (13 / 4))) ''Jahre'' default_na_text_key default_precision None
     \<noteq> Inr ''3,3 Jahre''"
  by (simp add: format_kpi_value_def as_float_def format_number_def get_text_def format_val_def
        format_f_3_25)

text \<open>
  Claim C5.  For every translation table and every key of the not-applicable text,
  \<open>format_kpi_value\<close> of \<open>None\<close> is the localized not-applicable text, and that text
  given back to \<open>format_kpi_value\<close> with the same table and key is returned unchanged.
\<close>

theorem C5_na_idempotent:
  "format_kpi_value lib VNone unit na_text_key precision texts_dict
     = Inr (get_text (case texts_dict of None \<Rightarrow> Map.empty | Some t \<Rightarrow> t) na_text_key (Some ''k.A.''))
   \<and> format_kpi_value lib
       (VStr (get_text (case texts_dict of None \<Rightarrow> Map.empty | Some t \<Rightarrow> t) na_text_key (Some ''k.A.'')))
       unit na_text_key precision texts_dict
     = Inr (get_text (case texts_dict of None \<Rightarrow> Map.empty | Some t \<Rightarrow> t) na_text_key (Some ''k.A.''))"
  by (simp add: format_kpi_value_def Let_def)

theorem C5_na_idempotent_witness:
  "format_kpi_value test_lib VNone ''kWh'' ''value_not_available_short_pdf'' 2
       (Some [''value_not_available_short_pdf'' \<mapsto> ''n.v.'']) = Inr ''n.v.''
   \<and> format_kpi_value test_lib (VStr ''n.v.'') ''kWh'' ''value_not_available_short_pdf'' 2
       (Some [''value_not_available_short_pdf'' \<mapsto> ''n.v.'']) = Inr ''n.v.''"
  using C5_na_idempotent [of test_lib "''kWh''" "''value_not_available_short_pdf''" 2
      "Some [''value_not_available_short_pdf'' \<mapsto> ''n.v.'']"]
  by (simp add: get_text_def)

section \<open>Decimal digits\<close>


lemma dec_digits_nonempty: "dec_digits n \<noteq> []"
  by (subst dec_digits.simps) simp

lemma length_dec_digits: "n < 10 ^ w \<Longrightarrow> 0 < w \<Longrightarrow> length (dec_digits n) \<le> w"
proof (induction n arbitrary: w rule: dec_digits.induct)
  case (1 n)
  show ?case
  proof (cases "n < 10")
    case True
    then show ?thesis using "1.prems" by (subst dec_digits.simps) simp
  next
    case False
    then obtain v where w: "w = Suc v" using "1.prems" by (cases w) auto
    have "v \<noteq> 0" using False "1.prems" w by (cases v) auto
    moreover have "n div 10 < 10 ^ v" using "1.prems" w by (simp add: less_mult_imp_div_less mult.commute)
    ultimately have "length (dec_digits (n div 10)) \<le> v" using "1.IH" False by simp
    then show ?thesis using False w by (subst dec_digits.simps) simp
  qed
qed

lemma length_zero_pad: "length s \<le> w \<Longrightarrow> length (zero_pad w s) = w"
  by (simp add: zero_pad_def)

lemma length_zero_pad_ge: "w \<le> length (zero_pad w s)"
  by (simp add: zero_pad_def)

lemma length_zero_pad_dec: "n < 10 ^ w \<Longrightarrow> 0 < w \<Longrightarrow> length (zero_pad w (dec_digits n)) = w"
  by (simp add: length_zero_pad length_dec_digits)









section \<open>Properties of the salutation line\<close>


lemma nonblank_VStr: "nonblank lib (VStr s) = (py_strip s \<noteq> [])"
  by (auto simp: nonblank_def truthy_def py_str_def py_strip_def)

lemma strip_Anna: "py_strip ''Anna'' = ''Anna''" by code_simp
lemma strip_Muster: "py_strip ''Muster'' = ''Muster''" by code_simp
lemma strip_Schmidt: "py_strip ''Schmidt'' = ''Schmidt''" by code_simp
lemma strip_Anna_Muster: "py_strip ''Anna Muster'' = ''Anna Muster''" by code_simp
lemma strip_Nil: "py_strip [] = []" by (simp add: py_strip_def)
lemma lower_Frau: "py_strip (py_lower ''Frau'') = ''frau''" by code_simp
lemma lower_Familie: "py_strip (py_lower ''Familie'') = ''familie''" by code_simp
lemma lower_Nil: "py_strip (py_lower []) = []" by (simp add: py_strip_def py_lower_def)

lemma salutation_frau:
  "generate_complete_salutation_line lib
     [''salutation'' \<mapsto> VStr ''Frau'', ''first_name'' \<mapsto> VStr ''Anna'', ''last_name'' \<mapsto> VStr ''Muster''] texts
     = Inr (get_text texts ''salutation_female_polite'' (Some ''Sehr geehrte/r'') @ '' Anna Muster,'')"
  by (simp add: generate_complete_salutation_line_def dict_get_def nonblank_VStr
      strip_Anna strip_Muster strip_Nil strip_Anna_Muster lower_Frau default_salutation_def)

lemma salutation_familie:
  "generate_complete_salutation_line lib
     [''salutation'' \<mapsto> VStr ''Familie'', ''last_name'' \<mapsto> VStr ''Schmidt''] texts
     = Inr (get_text texts ''salutation_family_polite'' (Some ''Sehr geehrte Familie'') @ '' Schmidt,'')"
  by (simp add: generate_complete_salutation_line_def dict_get_def nonblank_VStr
      strip_Schmidt strip_Nil lower_Familie py_str_def)

lemma salutation_empty:
  assumes "customer ''salutation'' = None \<or> customer ''salutation'' = Some (VStr [])"
      and "customer ''title'' = None \<or> customer ''title'' = Some (VStr [])"
      and "customer ''first_name'' = None \<or> customer ''first_name'' = Some (VStr [])"
      and "customer ''last_name'' = None \<or> customer ''last_name'' = Some (VStr [])"
  shows "generate_complete_salutation_line lib customer texts = Inr (generic_fallback texts)"
  using assms
  by (auto simp: generate_complete_salutation_line_def dict_get_def nonblank_VStr
      strip_Nil lower_Nil default_salutation_def)

text \<open>
  Claim C6.  For the customer with salutation \<open>Frau\<close>, first name \<open>Anna\<close> and last
  name \<open>Muster\<close> the line is the female polite form of the translation table followed by
  \<open>Anna Muster,\<close>.  For salutation \<open>Familie\<close> and last name \<open>Schmidt\<close> it is the family
  polite form followed by \<open>Schmidt,\<close>, which is \<open>Sehr geehrte Familie Schmidt,\<close> with
  the default text.  For a customer whose salutation, title, first name and last name are
  absent or empty it is the generic salutation.
\<close>

theorem C6_salutation:
  "generate_complete_salutation_line lib
     [''salutation'' \<mapsto> VStr ''Frau'', ''first_name'' \<mapsto> VStr ''Anna'', ''last_name'' \<mapsto> VStr ''Muster''] texts
     = Inr (get_text texts ''salutation_female_polite'' (Some ''Sehr geehrte/r'') @ '' Anna Muster,'')
   \<and> generate_complete_salutation_line lib
       [''salutation'' \<mapsto> VStr ''Familie'', ''last_name'' \<mapsto> VStr ''Schmidt''] texts
     = Inr (get_text texts ''salutation_family_polite'' (Some ''Sehr geehrte Familie'') @ '' Schmidt,'')
   \<and> (texts ''salutation_family_polite'' = None \<longrightarrow>
        generate_complete_salutation_line lib
          [''salutation'' \<mapsto> VStr ''Familie'', ''last_name'' \<mapsto> VStr ''Schmidt''] texts
        = Inr ''Sehr geehrte Familie Schmidt,'')
   \<and> ((\<forall>field \<in> {''salutation'', ''title'', ''first_name'', ''last_name''}.
          customer field = None \<or> customer field = Some (VStr [])) \<longrightarrow>
        generate_complete_salutation_line lib customer texts
        = Inr (get_text texts ''salutation_generic_fallback'' (Some ''Sehr geehrte Damen und Herren,'')))"
proof -
  have "generate_complete_salutation_line lib customer texts = Inr (generic_fallback texts)"
    if "\<forall>field \<in> {''salutation'', ''title'', ''first_name'', ''last_name''}.
          customer field = None \<or> customer field = Some (VStr [])"
    using that by (intro salutation_empty) simp_all
  then show ?thesis
    by (simp add: salutation_frau salutation_familie generic_fallback_def get_text_def)
qed

theorem C6_salutation_witness:
  "generate_complete_salutation_line test_lib
     [''salutation'' \<mapsto> VStr ''Frau'', ''first_name'' \<mapsto> VStr ''Anna'', ''last_name'' \<mapsto> VStr ''Muster'']
     [''salutation_female_polite'' \<mapsto> ''Sehr geehrte Frau'']
     = Inr ''Sehr geehrte Frau Anna Muster,''
   \<and> generate_complete_salutation_line test_lib
       [''salutation'' \<mapsto> VStr ''Familie'', ''last_name'' \<mapsto> VStr ''Schmidt'']
       [''salutation_female_polite'' \<mapsto> ''Sehr geehrte Frau'']
     = Inr ''Sehr geehrte Familie Schmidt,''
   \<and> generate_complete_salutation_line test_lib Map.empty [''salutation_female_polite'' \<mapsto> ''Sehr geehrte Frau'']
     = Inr ''Sehr geehrte Damen und Herren,''"
  using C6_salutation [of test_lib "[''salutation_female_polite'' \<mapsto> ''Sehr geehrte Frau'']" Map.empty]
  by (simp add: get_text_def)

section \<open>Properties of the offer number\<close>





lemma dv_lt: "digits_value ''1001'' < digits_value ''1002''" by (simp add: digits_value_def)




lemma stamp_test_clock: "strftime_stamp test_clock = ''20250603-140509''"
  by (simp add: strftime_stamp_def test_clock_def zero_pad_def dec_digits.simps)

text \<open>
  Claim C10.  \<open>get_next_offer_number\<close> always returns a string.  When loading raises,
  when the text of the loaded value is no integer, or when saving raises, the string is
  \<open>AN\<close> followed by the time stamp \<open>YYYYMMDD-HHMMSS\<close> (17 characters) and not the
  sequential number.  In the first two cases the store is left as it was, and in the
  third as the failed save left it: the counter need not have been incremented.
\<close>

theorem C10_offer_number_fallback:
  "(load_admin_setting store st ''offer_number_suffix'' (VInt 1000) = Inl e \<longrightarrow>
      get_next_offer_number lib clk texts store st = (offer_number_fallback clk, st))
   \<and> (load_admin_setting store st ''offer_number_suffix'' (VInt 1000) = Inr obj
        \<and> obj \<noteq> VNone \<and> int_of_str_of lib obj = None \<longrightarrow>
      get_next_offer_number lib clk texts store st = (offer_number_fallback clk, st))
   \<and> (load_admin_setting store st ''offer_number_suffix'' (VInt 1000) = Inr obj
        \<and> (if obj \<noteq> VNone then int_of_str_of lib obj else Some 1000) = Some n
        \<and> save_admin_setting store st ''offer_number_suffix'' (VInt (n + 1)) = (Some e', st') \<longrightarrow>
      get_next_offer_number lib clk texts store st = (offer_number_fallback clk, st'))
   \<and> offer_number_fallback clk
       = ''AN'' @ zero_pad 4 (dec_digits (now_year clk)) @ zero_pad 2 (dec_digits (now_month clk))
         @ zero_pad 2 (dec_digits (now_day clk)) @ ''-'' @ zero_pad 2 (dec_digits (now_hour clk))
         @ zero_pad 2 (dec_digits (now_minute clk)) @ zero_pad 2 (dec_digits (now_second clk))
   \<and> (now_year clk < 10000 \<and> now_month clk < 100 \<and> now_day clk < 100 \<and> now_hour clk < 100
        \<and> now_minute clk < 100 \<and> now_second clk < 100 \<longrightarrow>
      length (offer_number_fallback clk) = 17)"
proof -
  have len: "length (offer_number_fallback clk) = 17"
    if "now_year clk < 10000 \<and> now_month clk < 100 \<and> now_day clk < 100 \<and> now_hour clk < 100
        \<and> now_minute clk < 100 \<and> now_second clk < 100"
  proof -
    have "length (zero_pad 4 (dec_digits (now_year clk))) = 4" using that by (intro length_zero_pad_dec) simp_all
    moreover have "length (zero_pad 2 (dec_digits (now_month clk))) = 2" using that by (intro length_zero_pad_dec) simp_all
    moreover have "length (zero_pad 2 (dec_digits (now_day clk))) = 2" using that by (intro length_zero_pad_dec) simp_all
    moreover have "length (zero_pad 2 (dec_digits (now_hour clk))) = 2" using that by (intro length_zero_pad_dec) simp_all
    moreover have "length (zero_pad 2 (dec_digits (now_minute clk))) = 2" using that by (intro length_zero_pad_dec) simp_all
    moreover have "length (zero_pad 2 (dec_digits (now_second clk))) = 2" using that by (intro length_zero_pad_dec) simp_all
    ultimately show ?thesis by (simp add: offer_number_fallback_def strftime_stamp_def)
  qed
  have rest: "offer_number_fallback clk
       = ''AN'' @ zero_pad 4 (dec_digits (now_year clk)) @ zero_pad 2 (dec_digits (now_month clk))
         @ zero_pad 2 (dec_digits (now_day clk)) @ ''-'' @ zero_pad 2 (dec_digits (now_hour clk))
         @ zero_pad 2 (dec_digits (now_minute clk)) @ zero_pad 2 (dec_digits (now_second clk))"
    by (simp add: offer_number_fallback_def strftime_stamp_def)
  have a: "get_next_offer_number lib clk texts store st = (offer_number_fallback clk, st)"
    if "load_admin_setting store st ''offer_number_suffix'' (VInt 1000) = Inl e"
    using that by (simp add: get_next_offer_number_def)
  have b: "get_next_offer_number lib clk texts store st = (offer_number_fallback clk, st)"
    if "load_admin_setting store st ''offer_number_suffix'' (VInt 1000) = Inr obj
        \<and> obj \<noteq> VNone \<and> int_of_str_of lib obj = None"
    using that by (simp add: get_next_offer_number_def)
  have c: "get_next_offer_number lib clk texts store st = (offer_number_fallback clk, st')"
    if "load_admin_setting store st ''offer_number_suffix'' (VInt 1000) = Inr obj
        \<and> (if obj \<noteq> VNone then int_of_str_of lib obj else Some 1000) = Some n
        \<and> save_admin_setting store st ''offer_number_suffix'' (VInt (n + 1)) = (Some e', st')"
    using that by (simp add: get_next_offer_number_def Let_def)
  show ?thesis using a b c len rest by blast
qed

theorem C10_offer_number_fallback_witness:
  "get_next_offer_number test_lib test_clock Map.empty broken_store [''offer_number_suffix'' \<mapsto> VInt 1000]
     = (''AN20250603-140509'', [''offer_number_suffix'' \<mapsto> VInt 1000])
   \<and> get_next_offer_number test_lib test_clock Map.empty dict_store [''offer_number_suffix'' \<mapsto> VStr ''abc'']
     = (''AN20250603-140509'', [''offer_number_suffix'' \<mapsto> VStr ''abc''])
   \<and> get_next_offer_number test_lib test_clock Map.empty readonly_store [''offer_number_suffix'' \<mapsto> VInt 1000]
     = (''AN20250603-140509'', [''offer_number_suffix'' \<mapsto> VInt 1000])
   \<and> length (offer_number_fallback test_clock) = 17"
proof -
  have 1: "get_next_offer_number test_lib test_clock Map.empty broken_store [''offer_number_suffix'' \<mapsto> VInt 1000]
      = (offer_number_fallback test_clock, [''offer_number_suffix'' \<mapsto> VInt 1000])"
    using C10_offer_number_fallback [of broken_store "[''offer_number_suffix'' \<mapsto> VInt 1000]" OtherError
      test_lib test_clock Map.empty]
    by (simp add: broken_store_def)
  have 2: "get_next_offer_number test_lib test_clock Map.empty dict_store [''offer_number_suffix'' \<mapsto> VStr ''abc'']
      = (offer_number_fallback test_clock, [''offer_number_suffix'' \<mapsto> VStr ''abc''])"
    using C10_offer_number_fallback [of dict_store "[''offer_number_suffix'' \<mapsto> VStr ''abc'']" OtherError
      test_lib test_clock Map.empty "VStr ''abc''"]
    by (simp add: dict_store_def dict_get_def int_of_str_of_def test_lib_def)
  have 3: "get_next_offer_number test_lib test_clock Map.empty readonly_store [''offer_number_suffix'' \<mapsto> VInt 1000]
      = (offer_number_fallback test_clock, [''offer_number_suffix'' \<mapsto> VInt 1000])"
    using C10_offer_number_fallback [of readonly_store "[''offer_number_suffix'' \<mapsto> VInt 1000]" OtherError
      test_lib test_clock Map.empty "VInt 1000" 1000 OtherError "[''offer_number_suffix'' \<mapsto> VInt 1000]"]
    by (simp add: readonly_store_def dict_get_def int_of_str_of_def)
  show ?thesis using 1 2 3 by (simp add: offer_number_fallback_def stamp_test_clock)
qed

section \<open>Properties of the AppendixMerger\<close>





section \<open>Properties of the chart gallery\<close>


lemma chart_loop_concat:
  "chart_loop lib ar texts selected w entries (story, n)
     = (story @ concat (map (\<lambda>e. fst (chart_block lib ar texts selected w e)) entries),
        n + sum_list (map (\<lambda>e. snd (chart_block lib ar texts selected w e)) entries))"
  by (induction entries arbitrary: story n) (simp_all split: prod.splits)

lemma image_flowable_bytes:
  "Image b iw ih al \<in> set (get_image_flowable lib (VBytes c) dw texts None mh align) \<Longrightarrow> b = c"
  by (auto simp: get_image_flowable_def image_bytes_of_def caption_placeholder_def Let_def
      split: option.splits if_splits prod.splits)

lemma chart_block_gate:
  "fst (chart_block lib ar texts selected w (chart_key, title_key, default_title)) \<noteq> [] \<Longrightarrow>
     VStr chart_key \<in> set selected \<and> (\<exists>b. ar chart_key = Some (VBytes b) \<and> b \<noteq> [])"
  by (auto simp: chart_block_def dict_get_def Let_def split: if_splits option.splits pyval.splits)

lemma chart_block_image:
  "Image b iw ih al \<in> set (fst (chart_block lib ar texts selected w (chart_key, title_key, default_title))) \<Longrightarrow>
     VStr chart_key \<in> set selected \<and> ar chart_key = Some (VBytes b) \<and> b \<noteq> []"
  by (auto simp: chart_block_def dict_get_def Let_def dest: image_flowable_bytes
      split: if_splits option.splits pyval.splits)

text \<open>
  Claim C4.  A chart of the catalogue adds something to the story only if its key is in
  the list of selected charts and the analysis results map it to bytes that are not empty.
  A key that is not selected adds nothing, and neither does a selected key whose entry is
  absent or \<open>None\<close>.  The gallery is the blocks of the catalogue in order, followed by
  at most a note; every image in it shows the bytes of a selected key of the catalogue.
\<close>

theorem C4_chart_gating:
  "(fst (chart_block lib ar texts selected w (chart_key, title_key, default_title)) \<noteq> [] \<longrightarrow>
      VStr chart_key \<in> set selected \<and> (\<exists>b. ar chart_key = Some (VBytes b) \<and> b \<noteq> []))
   \<and> (VStr chart_key \<notin> set selected \<longrightarrow>
        chart_block lib ar texts selected w (chart_key, title_key, default_title) = ([], 0))
   \<and> (ar chart_key = None \<or> ar chart_key = Some VNone \<longrightarrow>
        chart_block lib ar texts selected w (chart_key, title_key, default_title) = ([], 0))
   \<and> (\<exists>trailer. visualizations_charts lib ar texts selected w
          = concat (map (\<lambda>e. fst (chart_block lib ar texts selected w e)) charts_config_for_pdf_generator)
            @ trailer
        \<and> (\<forall>f \<in> set trailer. \<exists>t s. f = Paragraph t s))
   \<and> (Image b iw ih al \<in> set (visualizations_charts lib ar texts selected w) \<longrightarrow>
        (\<exists>chart_key title_key default_title.
            (chart_key, title_key, default_title) \<in> set charts_config_for_pdf_generator
          \<and> VStr chart_key \<in> set selected \<and> ar chart_key = Some (VBytes b) \<and> b \<noteq> []))"
proof -
  let ?blocks = "concat (map (\<lambda>e. fst (chart_block lib ar texts selected w e)) charts_config_for_pdf_generator)"
  have vis: "\<exists>trailer. visualizations_charts lib ar texts selected w = ?blocks @ trailer
        \<and> (\<forall>f \<in> set trailer. \<exists>t s. f = Paragraph t s)"
    by (simp add: visualizations_charts_def chart_loop_concat)
  have img: "\<exists>chart_key title_key default_title.
            (chart_key, title_key, default_title) \<in> set charts_config_for_pdf_generator
          \<and> VStr chart_key \<in> set selected \<and> ar chart_key = Some (VBytes b) \<and> b \<noteq> []"
    if "Image b iw ih al \<in> set (visualizations_charts lib ar texts selected w)"
  proof -
    from vis obtain trailer where n: "visualizations_charts lib ar texts selected w = ?blocks @ trailer"
      and p: "\<forall>f \<in> set trailer. \<exists>t s. f = Paragraph t s" by blast
    from that n p have "Image b iw ih al \<in> set ?blocks" by auto
    then obtain e where e: "e \<in> set charts_config_for_pdf_generator"
      and m: "Image b iw ih al \<in> set (fst (chart_block lib ar texts selected w e))" by auto
    obtain k tk dt where "e = (k, tk, dt)" by (cases e) auto
    with e m chart_block_image show ?thesis by blast
  qed
  have a: "fst (chart_block lib ar texts selected w (chart_key, title_key, default_title)) \<noteq> [] \<longrightarrow>
      VStr chart_key \<in> set selected \<and> (\<exists>b. ar chart_key = Some (VBytes b) \<and> b \<noteq> [])"
    using chart_block_gate by blast
  have b: "VStr chart_key \<notin> set selected \<longrightarrow>
        chart_block lib ar texts selected w (chart_key, title_key, default_title) = ([], 0)"
    by (simp add: chart_block_def)
  have c: "ar chart_key = None \<or> ar chart_key = Some VNone \<longrightarrow>
        chart_block lib ar texts selected w (chart_key, title_key, default_title) = ([], 0)"
    by (auto simp: chart_block_def dict_get_def)
  show ?thesis using a b c vis img by blast
qed

theorem C4_chart_gating_witness:
  "chart_block image_lib
     [''break_even_chart_bytes'' \<mapsto> VBytes ''PNG'', ''cost_projection_chart_bytes'' \<mapsto> VBytes ''PNG'',
      ''amortisation_chart_bytes'' \<mapsto> VNone]
     Map.empty [VStr ''break_even_chart_bytes'', VStr ''amortisation_chart_bytes''] 480
     (''cost_projection_chart_bytes'', ''pdf_chart_label_cost_projection'', ''Stromkosten-Hochrechnung (2D)'')
     = ([], 0)
   \<and> chart_block image_lib
     [''break_even_chart_bytes'' \<mapsto> VBytes ''PNG'', ''cost_projection_chart_bytes'' \<mapsto> VBytes ''PNG'',
      ''amortisation_chart_bytes'' \<mapsto> VNone]
     Map.empty [VStr ''break_even_chart_bytes'', VStr ''amortisation_chart_bytes''] 480
     (''amortisation_chart_bytes'', ''pdf_chart_label_pvvis_amort'', ''PV Visuals: Amortisation'')
     = ([], 0)
   \<and> fst (chart_block image_lib
     [''break_even_chart_bytes'' \<mapsto> VBytes ''PNG'', ''cost_projection_chart_bytes'' \<mapsto> VBytes ''PNG'',
      ''amortisation_chart_bytes'' \<mapsto> VNone]
     Map.empty [VStr ''break_even_chart_bytes'', VStr ''amortisation_chart_bytes''] 480
     (''break_even_chart_bytes'', ''pdf_chart_label_pvvis_breakeven'', ''PV Visuals: Break-Even''))
     \<noteq> []"
proof -
  let ?ar = "[''break_even_chart_bytes'' \<mapsto> VBytes ''PNG'', ''cost_projection_chart_bytes'' \<mapsto> VBytes ''PNG'',
      ''amortisation_chart_bytes'' \<mapsto> VNone]"
  let ?sel = "[VStr ''break_even_chart_bytes'', VStr ''amortisation_chart_bytes'']"
  have 1: "chart_block image_lib ?ar Map.empty ?sel 480
     (''cost_projection_chart_bytes'', ''pdf_chart_label_cost_projection'', ''Stromkosten-Hochrechnung (2D)'')
     = ([], 0)"
    using C4_chart_gating [of image_lib ?ar Map.empty ?sel 480 "''cost_projection_chart_bytes''"
        "''pdf_chart_label_cost_projection''" "''Stromkosten-Hochrechnung (2D)''"]
    by simp
  have 2: "chart_block image_lib ?ar Map.empty ?sel 480
     (''amortisation_chart_bytes'', ''pdf_chart_label_pvvis_amort'', ''PV Visuals: Amortisation'')
     = ([], 0)"
    using C4_chart_gating [of image_lib ?ar Map.empty ?sel 480 "''amortisation_chart_bytes''"
        "''pdf_chart_label_pvvis_amort''" "''PV Visuals: Amortisation''"]
    by simp
  have 3: "fst (chart_block image_lib ?ar Map.empty ?sel 480
     (''break_even_chart_bytes'', ''pdf_chart_label_pvvis_breakeven'', ''PV Visuals: Break-Even'')) \<noteq> []"
    by (simp add: chart_block_def dict_get_def Let_def)
  show ?thesis using 1 2 3 by simp
qed

section \<open>Properties of the cost table\<close>
























section \<open>Properties of the simulation table\<close>

























end
